theory Spec2Isabelle
  imports Main
begin

section \<open>Python values, dictionaries and exceptions\<close>

text \<open>
  The samples are dynamically typed Python. Values that flow through the modelled
  functions are represented by \<open>pyval\<close>; a \<open>dict\<close> is an association list in insertion
  order with distinct keys; a raised exception is the \<open>Inl\<close> branch of a sum.
\<close>

datatype pyval =
    PNone
  | PBool bool
  | PInt int
  | PStr string
  | PBytes string
  | PList "pyval list"
  | PDict "(string \<times> pyval) list"

text \<open>Python truth value testing (\<open>if x:\<close>, \<open>not x\<close>).\<close>

fun truthy :: "pyval \<Rightarrow> bool" where
  "truthy PNone = False"
| "truthy (PBool b) = b"
| "truthy (PInt n) = (n \<noteq> 0)"
| "truthy (PStr s) = (s \<noteq> [])"
| "truthy (PBytes s) = (s \<noteq> [])"
| "truthy (PList xs) = (xs \<noteq> [])"
| "truthy (PDict kvs) = (kvs \<noteq> [])"

datatype pyexc =
    KeyError string
  | TypeError string
  | ValueError string
  | AttributeError string
  | SystemExit nat
  | InvalidArgumentError string
  | VendorError string

text \<open>\<open>d[k] = v\<close>: replace the value of an existing key in place, else append.\<close>

fun dict_set :: "(string \<times> 'v) list \<Rightarrow> string \<Rightarrow> 'v \<Rightarrow> (string \<times> 'v) list" where
  "dict_set [] k v = [(k, v)]"
| "dict_set ((k', v') # kvs) k v =
     (if k' = k then (k, v) # kvs else (k', v') # dict_set kvs k v)"

text \<open>\<open>d[k]\<close>: raises \<open>KeyError\<close> when the key is missing.\<close>

definition dict_get :: "(string \<times> 'v) list \<Rightarrow> string \<Rightarrow> pyexc + 'v" where
  "dict_get d k = (case map_of d k of None \<Rightarrow> Inl (KeyError k) | Some v \<Rightarrow> Inr v)"

definition dict_has :: "(string \<times> 'v) list \<Rightarrow> string \<Rightarrow> bool" where
  "dict_has d k = (map_of d k \<noteq> None)"


section \<open>firestore/cloud-async-client/snippets.py: class City\<close>

record city =
  name :: pyval
  state :: pyval
  country :: pyval
  capital :: pyval
  population :: pyval
  regions :: pyval

text \<open>\<open>City.__init__(name, state, country, capital=False, population=0, regions=[])\<close>.
  No code of the file mutates a city's \<open>regions\<close> list, so the shared default list
  stays empty.\<close>

definition City_init :: "pyval \<Rightarrow> pyval \<Rightarrow> pyval \<Rightarrow> city" where
  "City_init n s c =
     \<lparr>name = n, state = s, country = c,
      capital = PBool False, population = PInt 0, regions = PList []\<rparr>"

definition from_dict :: "(string \<times> pyval) list \<Rightarrow> pyexc + city" where
  "from_dict source =
     (case dict_get source ''name'' of Inl e \<Rightarrow> Inl e | Inr n \<Rightarrow>
      case dict_get source ''state'' of Inl e \<Rightarrow> Inl e | Inr s \<Rightarrow>
      case dict_get source ''country'' of Inl e \<Rightarrow> Inl e | Inr c \<Rightarrow>
        let city0 = City_init n s c;
            city1 = (if dict_has source ''capital''
                     then city0\<lparr>capital := the (map_of source ''capital'')\<rparr> else city0);
            city2 = (if dict_has source ''population''
                     then city1\<lparr>population := the (map_of source ''population'')\<rparr> else city1);
            city3 = (if dict_has source ''regions''
                     then city2\<lparr>regions := the (map_of source ''regions'')\<rparr> else city2)
        in Inr city3)"

definition to_dict :: "city \<Rightarrow> (string \<times> pyval) list" where
  "to_dict self =
     (let dest0 = [(''name'', name self), (''state'', state self), (''country'', country self)];
          dest1 = (if truthy (capital self)
                   then dict_set dest0 ''capital'' (capital self) else dest0);
          dest2 = (if truthy (population self)
                   then dict_set dest1 ''population'' (population self) else dest1);
          dest3 = (if truthy (regions self)
                   then dict_set dest2 ''regions'' (regions self) else dest2)
      in dest3)"


section \<open>people-and-planet-ai/timeseries-classification/trainer.py\<close>

text \<open>
  TensorFlow's \<open>DType\<close>: a base type and the reference flag. \<open>a.is_compatible_with(b)\<close>
  holds when \<open>a\<close> is \<open>b\<close> or the base type of \<open>b\<close>.
\<close>

datatype base_type = Float32 | Float64 | Int32 | Int64 | Bool_t | String_t

datatype dtype = DType base_type bool

fun base_dtype :: "dtype \<Rightarrow> dtype" where
  "base_dtype (DType b r) = DType b False"

definition dtype_is_compatible_with :: "dtype \<Rightarrow> dtype \<Rightarrow> bool" where
  "dtype_is_compatible_with self other = (self = other \<or> self = base_dtype other)"

text \<open>
  TensorFlow's \<open>TensorShape\<close>: \<open>None\<close> is an unknown rank, a \<open>None\<close> dimension an
  unknown size. Two shapes are compatible when a rank is unknown, or the ranks agree and
  each pair of dimensions is equal or has an unknown side.
\<close>

type_synonym tensor_shape = "nat option list option"

fun dim_is_compatible_with :: "nat option \<Rightarrow> nat option \<Rightarrow> bool" where
  "dim_is_compatible_with None y = True"
| "dim_is_compatible_with (Some a) None = True"
| "dim_is_compatible_with (Some a) (Some b) = (a = b)"

fun dims_compatible :: "nat option list \<Rightarrow> nat option list \<Rightarrow> bool" where
  "dims_compatible [] [] = True"
| "dims_compatible (x # xs) (y # ys) = (dim_is_compatible_with x y \<and> dims_compatible xs ys)"
| "dims_compatible xs ys = False"

fun shape_is_compatible_with :: "tensor_shape \<Rightarrow> tensor_shape \<Rightarrow> bool" where
  "shape_is_compatible_with (Some xs) (Some ys) = dims_compatible xs ys"
| "shape_is_compatible_with self other = True"

fun dim_merge_with :: "nat option \<Rightarrow> nat option \<Rightarrow> nat option" where
  "dim_merge_with None y = y"
| "dim_merge_with (Some a) y = Some a"

fun shape_merge_with :: "tensor_shape \<Rightarrow> tensor_shape \<Rightarrow> tensor_shape" where
  "shape_merge_with None other = other"
| "shape_merge_with (Some xs) None = Some xs"
| "shape_merge_with (Some xs) (Some ys) = Some (map2 dim_merge_with xs ys)"

text \<open>A tensor: its dtype, its (static) shape, and its elements, opaque to this code.\<close>

record 'a tensor =
  t_dtype :: dtype
  t_shape :: tensor_shape
  t_values :: "'a list"

record tensor_spec =
  s_shape :: tensor_shape
  s_dtype :: dtype

definition float32_column :: tensor_spec where
  "float32_column = \<lparr>s_shape = Some [None, Some 1], s_dtype = DType Float32 False\<rparr>"

definition INPUTS_SPEC :: "(string \<times> tensor_spec) list" where
  "INPUTS_SPEC =
     [(''distance_from_port'', float32_column),
      (''speed'', float32_column),
      (''course'', float32_column),
      (''lat'', float32_column),
      (''lon'', float32_column)]"

definition OUTPUTS_SPEC :: "(string \<times> tensor_spec) list" where
  "OUTPUTS_SPEC = [(''is_fishing'', float32_column)]"

text \<open>\<open>validated\<close>: the loop over \<open>spec_dict.items()\<close>, three checks per field, the first
  failing check raises; the exception carries the field it names.\<close>

fun validated ::
  "(string \<times> 'a tensor) list \<Rightarrow> (string \<times> tensor_spec) list
    \<Rightarrow> pyexc + (string \<times> 'a tensor) list" where
  "validated tensor_dict [] = Inr tensor_dict"
| "validated tensor_dict ((field, spec) # rest) =
     (case map_of tensor_dict field of
        None \<Rightarrow> Inl (KeyError field)
      | Some t \<Rightarrow>
          if \<not> dtype_is_compatible_with (s_dtype spec) (t_dtype t) then Inl (TypeError field)
          else if \<not> shape_is_compatible_with (s_shape spec) (t_shape t)
            then Inl (ValueError field)
          else validated tensor_dict rest)"


text \<open>A spec field passes when it is present with a compatible dtype and shape.\<close>

definition field_ok :: "(string \<times> 'a tensor) list \<Rightarrow> string \<times> tensor_spec \<Rightarrow> bool" where
  "field_ok td p =
     (case map_of td (fst p) of
        None \<Rightarrow> False
      | Some t \<Rightarrow> dtype_is_compatible_with (s_dtype (snd p)) (t_dtype t)
          \<and> shape_is_compatible_with (s_shape (snd p)) (t_shape t))"


text \<open>
  \<open>serialize\<close> and \<open>deserialize\<close> call into TensorFlow: \<open>tf.convert_to_tensor\<close>,
  \<open>tf.io.serialize_tensor\<close>, \<open>tf.io.parse_tensor\<close>, the \<open>Example\<close> protocol
  buffer's \<open>SerializeToString\<close> and \<open>tf.io.parse_example\<close>. They are library code,
  so the model takes them as a record of operations; \<open>'v\<close> is the type of the raw
  values, \<open>'a\<close> of tensor elements and \<open>'b\<close> of byte strings. An \<open>Example\<close> in memory
  is its feature dictionary, each feature a \<open>bytes_list\<close>. \<open>io_parse_example\<close> receives
  the names of the requested features, each a scalar string \<open>FixedLenFeature\<close>.
\<close>

record ('v, 'a, 'b) tf_ops =
  convert_to_tensor :: "'v \<Rightarrow> dtype \<Rightarrow> pyexc + 'a tensor"
  io_serialize_tensor :: "'a tensor \<Rightarrow> 'b"
  io_parse_tensor :: "'b \<Rightarrow> dtype \<Rightarrow> pyexc + 'a tensor"
  Example_SerializeToString :: "(string \<times> 'b list) list \<Rightarrow> 'b"
  io_parse_example :: "'b \<Rightarrow> string list \<Rightarrow> pyexc + (string \<times> 'b) list"

text \<open>\<open>{**INPUTS_SPEC, **OUTPUTS_SPEC}\<close>\<close>

definition dict_merge :: "(string \<times> 'v) list \<Rightarrow> (string \<times> 'v) list \<Rightarrow> (string \<times> 'v) list" where
  "dict_merge a b = foldl (\<lambda>d kv. dict_set d (fst kv) (snd kv)) a b"

text \<open>The dictionary comprehension of \<open>serialize\<close>: for every item, \<open>spec_dict[field]\<close>
  (a \<open>KeyError\<close> for an unknown field), then the conversion.\<close>

fun convert_items ::
  "('v, 'a, 'b) tf_ops \<Rightarrow> (string \<times> tensor_spec) list \<Rightarrow> (string \<times> 'v) list
    \<Rightarrow> pyexc + (string \<times> 'a tensor) list" where
  "convert_items ops spec_dict [] = Inr []"
| "convert_items ops spec_dict ((field, v) # rest) =
     (case dict_get spec_dict field of
        Inl e \<Rightarrow> Inl e
      | Inr spec \<Rightarrow>
         (case convert_to_tensor ops v (s_dtype spec) of
            Inl e \<Rightarrow> Inl e
          | Inr t \<Rightarrow>
             (case convert_items ops spec_dict rest of
                Inl e \<Rightarrow> Inl e
              | Inr ts \<Rightarrow> Inr ((field, t) # ts))))"

definition serialize :: "('v, 'a, 'b) tf_ops \<Rightarrow> (string \<times> 'v) list \<Rightarrow> pyexc + 'b" where
  "serialize ops value_dict =
     (let spec_dict = dict_merge INPUTS_SPEC OUTPUTS_SPEC in
      case convert_items ops spec_dict value_dict of
        Inl e \<Rightarrow> Inl e
      | Inr tensor_dict \<Rightarrow>
         (case validated tensor_dict spec_dict of
            Inl e \<Rightarrow> Inl e
          | Inr validated_tensor_dict \<Rightarrow>
              Inr (Example_SerializeToString ops
                (map (\<lambda>fv. (fst fv, [io_serialize_tensor ops (snd fv)]))
                   validated_tensor_dict))))"

text \<open>\<open>tensor.set_shape(shape)\<close>: a \<open>ValueError\<close> on incompatible shapes, else the
  static shape is merged with the given one.\<close>

definition set_shape :: "'a tensor \<Rightarrow> tensor_shape \<Rightarrow> pyexc + 'a tensor" where
  "set_shape tensor shape =
     (if shape_is_compatible_with (t_shape tensor) shape
      then Inr (tensor\<lparr>t_shape := shape_merge_with (t_shape tensor) shape\<rparr>)
      else Inl (ValueError ''set_shape''))"

text \<open>The inner functions \<open>parse_tensor\<close> and \<open>parse_features\<close> of \<open>deserialize\<close>;
  \<open>parse_items\<close> is the comprehension over \<open>example.items()\<close> with its filter
  \<open>if field in spec_dict\<close>.\<close>

definition parse_tensor ::
  "('v, 'a, 'b) tf_ops \<Rightarrow> 'b \<Rightarrow> tensor_spec \<Rightarrow> pyexc + 'a tensor" where
  "parse_tensor ops bytes_value spec =
     (case io_parse_tensor ops bytes_value (s_dtype spec) of
        Inl e \<Rightarrow> Inl e
      | Inr tensor \<Rightarrow> set_shape tensor (s_shape spec))"

fun parse_items ::
  "('v, 'a, 'b) tf_ops \<Rightarrow> (string \<times> tensor_spec) list \<Rightarrow> (string \<times> 'b) list
    \<Rightarrow> pyexc + (string \<times> 'a tensor) list" where
  "parse_items ops spec_dict [] = Inr []"
| "parse_items ops spec_dict ((field, bytes_value) # rest) =
     (case map_of spec_dict field of
        None \<Rightarrow> parse_items ops spec_dict rest
      | Some spec \<Rightarrow>
         (case parse_tensor ops bytes_value spec of
            Inl e \<Rightarrow> Inl e
          | Inr t \<Rightarrow>
             (case parse_items ops spec_dict rest of
                Inl e \<Rightarrow> Inl e
              | Inr ts \<Rightarrow> Inr ((field, t) # ts))))"

definition parse_features ::
  "('v, 'a, 'b) tf_ops \<Rightarrow> (string \<times> 'b) list \<Rightarrow> (string \<times> tensor_spec) list
    \<Rightarrow> pyexc + (string \<times> 'a tensor) list" where
  "parse_features ops example spec_dict =
     (case parse_items ops spec_dict example of
        Inl e \<Rightarrow> Inl e
      | Inr tensor_dict \<Rightarrow> validated tensor_dict spec_dict)"

definition deserialize ::
  "('v, 'a, 'b) tf_ops \<Rightarrow> 'b
    \<Rightarrow> pyexc + ((string \<times> 'a tensor) list \<times> (string \<times> 'a tensor) list)" where
  "deserialize ops serialized_example =
     (let features = map fst INPUTS_SPEC @ map fst OUTPUTS_SPEC in
      case io_parse_example ops serialized_example features of
        Inl e \<Rightarrow> Inl e
      | Inr example \<Rightarrow>
         (case parse_features ops example INPUTS_SPEC of
            Inl e \<Rightarrow> Inl e
          | Inr inputs \<Rightarrow>
             (case parse_features ops example OUTPUTS_SPEC of
                Inl e \<Rightarrow> Inl e
              | Inr outputs \<Rightarrow> Inr (inputs, outputs))))"

definition deserialize_serialize ::
  "('v, 'a, 'b) tf_ops \<Rightarrow> (string \<times> 'v) list
    \<Rightarrow> pyexc + ((string \<times> 'a tensor) list \<times> (string \<times> 'a tensor) list)" where
  "deserialize_serialize ops value_dict =
     (case serialize ops value_dict of Inl e \<Rightarrow> Inl e | Inr b \<Rightarrow> deserialize ops b)"

text \<open>
  Value dictionaries whose fields conform to \<open>INPUTS_SPEC\<close> and \<open>OUTPUTS_SPEC\<close>: the
  keys are exactly the six spec fields and every value converts to a float32 tensor of
  shape \<open>(n, 1)\<close>.
\<close>

fun column_shape :: "tensor_shape \<Rightarrow> bool" where
  "column_shape (Some [Some n, Some m]) = (m = 1)"
| "column_shape sh = False"

definition column_tensor :: "'a tensor \<Rightarrow> bool" where
  "column_tensor t = (t_dtype t = DType Float32 False \<and> column_shape (t_shape t))"

definition conforms :: "('v, 'a, 'b) tf_ops \<Rightarrow> (string \<times> 'v) list \<Rightarrow> bool" where
  "conforms ops value_dict =
     (distinct (map fst value_dict)
      \<and> set (map fst value_dict) = set (map fst INPUTS_SPEC @ map fst OUTPUTS_SPEC)
      \<and> list_all (\<lambda>fv. case convert_to_tensor ops (snd fv) (DType Float32 False) of
                          Inl e \<Rightarrow> False | Inr t \<Rightarrow> column_tensor t) value_dict)"

text \<open>
  A reference codec, used to run the functions on concrete data: byte strings are the
  abstract syntax of what they encode, a serialized tensor or a serialized \<open>Example\<close>.
\<close>

datatype 'a wire = WTensor "'a tensor" | WExample "(string \<times> 'a wire list) list"

fun ref_parse_tensor :: "'a wire \<Rightarrow> dtype \<Rightarrow> pyexc + 'a tensor" where
  "ref_parse_tensor (WTensor t) d =
     (if t_dtype t = d then Inr t else Inl (InvalidArgumentError ''dtype''))"
| "ref_parse_tensor (WExample fs) d = Inl (InvalidArgumentError ''not a tensor'')"

fun ref_collect :: "(string \<times> 'a wire list) list \<Rightarrow> string list \<Rightarrow> pyexc + (string \<times> 'a wire) list" where
  "ref_collect fs [] = Inr []"
| "ref_collect fs (n # ns) =
     (case map_of fs n of
        Some [b] \<Rightarrow> (case ref_collect fs ns of Inl e \<Rightarrow> Inl e | Inr r \<Rightarrow> Inr ((n, b) # r))
      | _ \<Rightarrow> Inl (InvalidArgumentError n))"

fun ref_parse_example :: "'a wire \<Rightarrow> string list \<Rightarrow> pyexc + (string \<times> 'a wire) list" where
  "ref_parse_example (WExample fs) ns = ref_collect fs ns"
| "ref_parse_example (WTensor t) ns = Inl (InvalidArgumentError ''not an example'')"

definition ref_ops :: "('a list, 'a, 'a wire) tf_ops" where
  "ref_ops = \<lparr>
     convert_to_tensor = (\<lambda>v d. Inr \<lparr>t_dtype = d, t_shape = Some [Some (length v), Some 1], t_values = v\<rparr>),
     io_serialize_tensor = WTensor,
     io_parse_tensor = ref_parse_tensor,
     Example_SerializeToString = WExample,
     io_parse_example = ref_parse_example\<rparr>"

definition column :: "'a list \<Rightarrow> 'a tensor" where
  "column v = \<lparr>t_dtype = DType Float32 False, t_shape = Some [Some (length v), Some 1],
               t_values = v\<rparr>"

definition example_values :: "(string \<times> nat list) list" where
  "example_values = [(''is_fishing'', [0, 1]), (''lat'', [10, 11]), (''lon'', [20, 21]),
    (''distance_from_port'', [5, 6]), (''speed'', [1, 2]), (''course'', [90, 91])]"


section \<open>appengine/python3-wormhole-samples/blobstore/wsgi/main.py\<close>

text \<open>
  The part of Python's \<open>re\<close> that the three route patterns use: \<open>^\<close> (start of the
  string), \<open>$\<close> (end of the string, or just before a newline that ends it), a literal
  character, \<open>c?\<close> (greedy optional character) and \<open>(.+)\<close> (a capturing group of one
  or more characters other than newline, greedy, with backtracking).
\<close>

datatype atom = Bol | Eol | Chr char | Opt char | GroupAnyPlus

fun first_some :: "'a option list \<Rightarrow> 'a option" where
  "first_some [] = None"
| "first_some (None # xs) = first_some xs"
| "first_some (Some x # xs) = Some x"

definition newline :: char where
  "newline = CHR 0x0A"

text \<open>\<open>match_here regex at_start s\<close>: match the pattern against a prefix of \<open>s\<close>;
  \<open>at_start\<close> says that \<open>s\<close> is the whole subject. The result is \<open>match.groups()\<close>.\<close>

fun match_here :: "atom list \<Rightarrow> bool \<Rightarrow> string \<Rightarrow> string list option" where
  "match_here [] at_start s = Some []"
| "match_here (Bol # r) at_start s = (if at_start then match_here r at_start s else None)"
| "match_here (Eol # r) at_start s =
     (if s = [] \<or> s = [newline] then match_here r at_start s else None)"
| "match_here (Chr c # r) at_start s =
     (case s of [] \<Rightarrow> None
      | x # xs \<Rightarrow> if x = c then match_here r False xs else None)"
| "match_here (Opt c # r) at_start s =
     (case (case s of [] \<Rightarrow> None
            | x # xs \<Rightarrow> if x = c then match_here r False xs else None) of
        Some g \<Rightarrow> Some g
      | None \<Rightarrow> match_here r at_start s)"
| "match_here (GroupAnyPlus # r) at_start s =
     first_some
       (map (\<lambda>k. map_option (\<lambda>g. take k s # g) (match_here r False (drop k s)))
          (rev [1 ..< Suc (length (takeWhile (\<lambda>c. c \<noteq> newline) s))]))"

text \<open>\<open>re.search\<close>: the match at the leftmost position that has one.\<close>

definition re_search :: "atom list \<Rightarrow> string \<Rightarrow> string list option" where
  "re_search regex s =
     first_some (map (\<lambda>i. match_here regex (i = 0) (drop i s)) [0 ..< Suc (length s)])"

datatype handler = UploadFormHandler | UploadPhotoHandler | ViewPhotoHandler

text \<open>The patterns \<open>r'^$'\<close>, \<open>r'upload_photo/?$'\<close> and \<open>r'view_photo/(.+)$'\<close>.\<close>

definition upload_form_re :: "atom list" where
  "upload_form_re = [Bol, Eol]"

definition upload_photo_re :: "atom list" where
  "upload_photo_re = map Chr ''upload_photo'' @ [Opt CHR ''/'', Eol]"

definition view_photo_re :: "atom list" where
  "view_photo_re = map Chr ''view_photo/'' @ [GroupAnyPlus, Eol]"

definition urls :: "(atom list \<times> handler) list" where
  "urls =
     [(upload_form_re, UploadFormHandler),
      (upload_photo_re, UploadPhotoHandler),
      (view_photo_re, ViewPhotoHandler)]"

text \<open>
  What \<open>Application.__call__\<close> does with a request: it calls an instance of a handler
  class with the environ it has updated, or answers itself through \<open>start_response\<close>
  (status, headers) and a body.
\<close>

datatype outcome =
    Called handler "(string \<times> pyval) list"
  | Response string "(string \<times> string) list" "string list"

definition not_found :: outcome where
  "not_found = Response ''404 Not Found'' [(''Content-Type'', ''text/plain'')] [''404 Not Found'']"

text \<open>\<open>environ.get('PATH_INFO', '').lstrip('/')\<close>: \<open>bytes.lstrip\<close> rejects the \<open>str\<close>
  argument with a \<open>TypeError\<close>; the other values have no \<open>lstrip\<close> attribute.\<close>

definition stripped_path :: "(string \<times> pyval) list \<Rightarrow> pyexc + string" where
  "stripped_path environ =
     (case map_of environ ''PATH_INFO'' of
        None \<Rightarrow> Inr (dropWhile (\<lambda>c. c = CHR ''/'') [])
      | Some (PStr p) \<Rightarrow> Inr (dropWhile (\<lambda>c. c = CHR ''/'') p)
      | Some (PBytes b) \<Rightarrow> Inl (TypeError ''lstrip'')
      | Some v \<Rightarrow> Inl (AttributeError ''lstrip''))"

fun route :: "(atom list \<times> handler) list \<Rightarrow> (string \<times> pyval) list \<Rightarrow> string \<Rightarrow> outcome" where
  "route [] environ path = not_found"
| "route ((regex, handler) # rest) environ path =
     (case re_search regex path of
        Some groups \<Rightarrow>
          Called handler (dict_set environ ''app.url_args'' (PList (map PStr groups)))
      | None \<Rightarrow> route rest environ path)"

definition Application_call ::
  "(atom list \<times> handler) list \<Rightarrow> (string \<times> pyval) list \<Rightarrow> pyexc + outcome" where
  "Application_call routes environ =
     (case stripped_path environ of
        Inl e \<Rightarrow> Inl e
      | Inr path \<Rightarrow> Inr (route routes environ path))"


section \<open>run/events-pubsub/main.py\<close>

text \<open>
  \<open>index\<close> parses the request with \<open>cloudevents.http.from_http\<close>, library code whose
  outcome is an argument of the model: one of the exceptions it raises, or the event
  (its \<open>id\<close> attribute and its \<open>data\<close>). \<open>decode\<close> stands for
  \<open>base64.b64decode(x).decode('utf-8').strip()\<close>, which may raise.
\<close>

datatype from_http_exc =
    MissingRequiredFields
  | InvalidStructuredJSON
  | InvalidRequiredFields
  | OtherCloudEventError string

record cloudevent =
  ce_id :: string
  ce_data :: pyval

datatype raised = CloudEventError from_http_exc | PythonError pyexc

text \<open>The greeting's name: \<open>'World'\<close>, unless the message is a dict with a \<open>data\<close> key.\<close>

fun pubsub_name :: "(pyval \<Rightarrow> pyexc + string) \<Rightarrow> pyval \<Rightarrow> pyexc + string" where
  "pubsub_name decode (PDict m) =
     (case map_of m ''data'' of None \<Rightarrow> Inr ''World'' | Some d \<Rightarrow> decode d)"
| "pubsub_name decode v = Inr ''World''"

text \<open>\<open>envelope['message']\<close> when \<open>envelope\<close> is a dict that has the key.\<close>

fun envelope_message :: "pyval \<Rightarrow> pyval option" where
  "envelope_message (PDict d) = map_of d ''message''"
| "envelope_message v = None"

definition index ::
  "(pyval \<Rightarrow> pyexc + string) \<Rightarrow> from_http_exc + cloudevent \<Rightarrow> raised + string \<times> nat" where
  "index decode parsed =
     (case parsed of
        Inl MissingRequiredFields \<Rightarrow>
          Inr (''Failed to find all required cloudevent fields. '', 400)
      | Inl InvalidStructuredJSON \<Rightarrow>
          Inr (''Could not deserialize the payload as JSON. '', 400)
      | Inl InvalidRequiredFields \<Rightarrow>
          Inr (''Request contained invalid required cloudevent fields. '', 400)
      | Inl (OtherCloudEventError x) \<Rightarrow> Inl (CloudEventError (OtherCloudEventError x))
      | Inr event \<Rightarrow>
          (let envelope = ce_data event in
           if \<not> truthy envelope
           then Inr (''Bad Request: no Pub/Sub message received'', 400)
           else
             (case envelope_message envelope of
                None \<Rightarrow> Inr (''Bad Request: invalid Pub/Sub message format'', 400)
              | Some pubsub_message \<Rightarrow>
                  (case pubsub_name decode pubsub_message of
                     Inl e \<Rightarrow> Inl (PythonError e)
                   | Inr name' \<Rightarrow>
                       Inr (''Hello, '' @ name' @ ''! ID: '' @ ce_id event, 200)))))"


section \<open>iam/cloud-client/snippets/disable_service_account.py\<close>

text \<open>
  The IAM service is remote: its two calls are arguments of the model, each a function
  of the service's state that may raise. The model records the requests the function
  issues, in order, what it prints, and the exception that ends it, if any.
\<close>

datatype rpc = DisableServiceAccountRequest string | GetServiceAccountRequest string

record service_account =
  sa_name :: string
  disabled :: bool

record 'st iam_service =
  disable_rpc :: "string \<Rightarrow> 'st \<Rightarrow> pyexc + 'st"
  get_rpc :: "string \<Rightarrow> 'st \<Rightarrow> pyexc + service_account"

record run_log =
  rpcs :: "rpc list"
  printed :: "string list"
  raised_exc :: "pyexc option"

definition disable_service_account ::
  "'st iam_service \<Rightarrow> 'st \<Rightarrow> string \<Rightarrow> string \<Rightarrow> run_log" where
  "disable_service_account iam_admin_client st project_id account =
     (let name' = ''projects/'' @ project_id @ ''/serviceAccounts/'' @ account in
      case disable_rpc iam_admin_client name' st of
        Inl e \<Rightarrow>
          \<lparr>rpcs = [DisableServiceAccountRequest name'], printed = [], raised_exc = Some e\<rparr>
      | Inr st' \<Rightarrow>
          (case get_rpc iam_admin_client name' st' of
             Inl e \<Rightarrow>
               \<lparr>rpcs = [DisableServiceAccountRequest name', GetServiceAccountRequest name'],
                printed = [], raised_exc = Some e\<rparr>
           | Inr service_account \<Rightarrow>
               \<lparr>rpcs = [DisableServiceAccountRequest name', GetServiceAccountRequest name'],
                printed = (if disabled service_account
                           then [''Disabled service account: '' @ account] else []),
                raised_exc = None\<rparr>))"

text \<open>A service that keeps the names of the disabled accounts, to run the function.\<close>

definition ref_iam :: "string list iam_service" where
  "ref_iam = \<lparr>disable_rpc = (\<lambda>n st. Inr (n # st)),
              get_rpc = (\<lambda>n st. Inr \<lparr>sa_name = n, disabled = (n \<in> set st)\<rparr>)\<rparr>"


section \<open>auth/api-client/restrict_api_key_server.py\<close>

text \<open>
  A protocol buffer message is the dictionary of the fields that have been assigned;
  every other field holds its default. \<open>msg.field = v\<close> is \<open>dict_set\<close>. The client's
  \<open>update_key(request=request).result()\<close> is an argument of the model.
\<close>

datatype field_value =
    FStr string
  | FStrList "string list"
  | FMsg "(string \<times> field_value) list"

definition field_str :: "(string \<times> field_value) list \<Rightarrow> string \<Rightarrow> string" where
  "field_str msg f = (case map_of msg f of Some (FStr v) \<Rightarrow> v | _ \<Rightarrow> [])"

record api_key_run =
  sent :: "(string \<times> field_value) list list"
  stdout_lines :: "string list"
  returned :: "pyexc + (string \<times> field_value) list"

definition restrict_api_key_server ::
  "((string \<times> field_value) list \<Rightarrow> pyexc + (string \<times> field_value) list)
    \<Rightarrow> string \<Rightarrow> string \<Rightarrow> api_key_run" where
  "restrict_api_key_server update_key project_id key_id =
     (let server_key_restrictions =
            dict_set [] ''allowed_ips'' (FStrList [''198.51.100.0/24'', ''2000:db8::/64'']);
          restrictions =
            dict_set [] ''server_key_restrictions'' (FMsg server_key_restrictions);
          key0 = dict_set [] ''name''
                   (FStr (''projects/'' @ project_id @ ''/locations/global/keys/'' @ key_id));
          key = dict_set key0 ''restrictions'' (FMsg restrictions);
          request0 = dict_set [] ''key'' (FMsg key);
          request = dict_set request0 ''update_mask'' (FStr ''restrictions'')
      in case update_key request of
           Inl e \<Rightarrow> \<lparr>sent = [request], stdout_lines = [], returned = Inl e\<rparr>
         | Inr response \<Rightarrow>
             \<lparr>sent = [request],
              stdout_lines = [''Successfully updated the API key: '' @ field_str response ''name''],
              returned = Inr response\<rparr>)"


section \<open>trainer.py: the main program\<close>

text \<open>
  The block under \<open>if __name__ == "__main__"\<close>. An argument declared with
  \<open>add_argument\<close> is its option string, its \<open>required\<close> flag and its default;
  \<open>argparse\<close> stores its value in the namespace under the option string without the
  leading dashes and with every other dash replaced by an underscore.
\<close>

record arg_decl =
  option_string :: string
  arg_required :: bool
  arg_default :: "string option"

definition dest_of :: "string \<Rightarrow> string" where
  "dest_of flag =
     map (\<lambda>c. if c = CHR ''-'' then CHR ''_'' else c) (dropWhile (\<lambda>c. c = CHR ''-'') flag)"

text \<open>The four \<open>add_argument\<close> calls; \<open>aip_model_dir\<close> is the environment variable
  \<open>AIP_MODEL_DIR\<close>, if set.\<close>

definition parser_arguments :: "string option \<Rightarrow> arg_decl list" where
  "parser_arguments aip_model_dir =
     [\<lparr>option_string = ''--trian-files'', arg_required = True, arg_default = None\<rparr>,
      \<lparr>option_string = ''--eval-files'', arg_required = True, arg_default = None\<rparr>,
      \<lparr>option_string = ''--model-dir'', arg_required = False,
         arg_default = Some (case aip_model_dir of None \<Rightarrow> ''model'' | Some d \<Rightarrow> d)\<rparr>,
      \<lparr>option_string = ''--tensorboard-dir'', arg_required = False,
         arg_default = Some ''tensorboard''\<rparr>]"

text \<open>\<open>args.a\<close> on a namespace: \<open>AttributeError\<close> when it has no attribute \<open>a\<close>.\<close>

definition getattr :: "(string \<times> 'v) list \<Rightarrow> string \<Rightarrow> pyexc + 'v" where
  "getattr ns a = (case map_of ns a of None \<Rightarrow> Inl (AttributeError a) | Some v \<Rightarrow> Inr v)"

text \<open>A call of \<open>run\<close>, by its keyword arguments.\<close>

record run_call =
  train_files :: "string option"
  eval_files :: "string option"
  model_dir :: "string option"
  tensorboard_dir :: "string option"

text \<open>
  The main block: the result is the call of \<open>run\<close> it makes, or the exception that ends
  it before. \<open>parse_args\<close> is \<open>ArgumentParser.parse_args\<close>, library code that either exits
  or returns the namespace; the keyword arguments of the call are evaluated left to right.
\<close>

definition main_block ::
  "(arg_decl list \<Rightarrow> string list \<Rightarrow> pyexc + (string \<times> string option) list)
    \<Rightarrow> string option \<Rightarrow> string list \<Rightarrow> pyexc + run_call" where
  "main_block parse_args aip_model_dir argv =
     (case parse_args (parser_arguments aip_model_dir) argv of
        Inl e \<Rightarrow> Inl e
      | Inr args \<Rightarrow>
         (case getattr args ''train_files'' of Inl e \<Rightarrow> Inl e | Inr a1 \<Rightarrow>
         (case getattr args ''eval_files'' of Inl e \<Rightarrow> Inl e | Inr a2 \<Rightarrow>
         (case getattr args ''output_dir'' of Inl e \<Rightarrow> Inl e | Inr a3 \<Rightarrow>
         (case getattr args ''tensorboard_dir'' of Inl e \<Rightarrow> Inl e | Inr a4 \<Rightarrow>
            Inr \<lparr>train_files = a1, eval_files = a2, model_dir = a3,
                 tensorboard_dir = a4\<rparr>)))))"

text \<open>
  A parser for command lines of the form \<open>--flag value --flag value ...\<close>, to run the
  block: the namespace starts with every declared attribute at its default, an undeclared
  flag, a flag without a value or a missing required argument exits with status 2.
\<close>

fun consume ::
  "arg_decl list \<Rightarrow> string list \<Rightarrow> (string \<times> string option) list \<Rightarrow> string list
    \<Rightarrow> pyexc + (string \<times> string option) list \<times> string list" where
  "consume decls [] ns seen = Inr (ns, seen)"
| "consume decls [x] ns seen = Inl (SystemExit 2)"
| "consume decls (flag # v # rest) ns seen =
     (if flag \<in> set (map option_string decls)
      then consume decls rest (dict_set ns (dest_of flag) (Some v)) (dest_of flag # seen)
      else Inl (SystemExit 2))"

definition ref_parse_args ::
  "arg_decl list \<Rightarrow> string list \<Rightarrow> pyexc + (string \<times> string option) list" where
  "ref_parse_args decls argv =
     (case consume decls argv
             (map (\<lambda>d. (dest_of (option_string d), arg_default d)) decls) [] of
        Inl e \<Rightarrow> Inl e
      | Inr (ns, seen) \<Rightarrow>
          if list_all (\<lambda>d. dest_of (option_string d) \<in> set seen) (filter arg_required decls)
          then Inr ns else Inl (SystemExit 2))"


section \<open>Round trip of City through its dictionary form\<close>

text \<open>
  Claim C9. For every City \<open>c\<close> whose capital is a boolean, whose population is a
  non-negative integer and whose regions is a list, \<open>City.from_dict(c.to_dict())\<close>
  returns a City equal to \<open>c\<close> in all six fields; \<open>to_dict\<close> leaves out the keys
  \<open>capital\<close>, \<open>population\<close> and \<open>regions\<close> exactly when their values are falsy, and
  \<open>from_dict\<close> of a dictionary without those keys yields the constructor defaults
  \<open>False\<close>, \<open>0\<close> and \<open>[]\<close>.
\<close>

theorem City_from_dict_to_dict:
  assumes "capital c = PBool b" and "population c = PInt n" and "0 \<le> n"
    and "regions c = PList rs"
  shows "from_dict (to_dict c) = Inr c
    \<and> (dict_has (to_dict c) ''capital'' \<longleftrightarrow> truthy (capital c))
    \<and> (dict_has (to_dict c) ''population'' \<longleftrightarrow> truthy (population c))
    \<and> (dict_has (to_dict c) ''regions'' \<longleftrightarrow> truthy (regions c))
    \<and> from_dict [(''name'', name c), (''state'', state c), (''country'', country c)]
        = Inr (c\<lparr>capital := PBool False, population := PInt 0, regions := PList []\<rparr>)"
proof -
  have rt: "from_dict (to_dict c) = Inr c"
    using assms
    by (cases c; cases b; cases "n = 0"; cases rs)
       (simp_all add: from_dict_def to_dict_def dict_get_def dict_has_def City_init_def)
  have keys: "(dict_has (to_dict c) ''capital'' \<longleftrightarrow> truthy (capital c))
    \<and> (dict_has (to_dict c) ''population'' \<longleftrightarrow> truthy (population c))
    \<and> (dict_has (to_dict c) ''regions'' \<longleftrightarrow> truthy (regions c))"
    using assms
    by (cases b; cases "n = 0"; cases rs)
       (simp_all add: to_dict_def dict_has_def)
  have dflt: "from_dict [(''name'', name c), (''state'', state c), (''country'', country c)]
        = Inr (c\<lparr>capital := PBool False, population := PInt 0, regions := PList []\<rparr>)"
    by (cases c) (simp add: from_dict_def dict_get_def dict_has_def City_init_def)
  from rt keys dflt show ?thesis by blast
qed

theorem City_from_dict_to_dict_witness:
  "from_dict (to_dict \<lparr>name = PStr ''Tokyo'', state = PNone, country = PStr ''Japan'',
      capital = PBool True, population = PInt 9000000,
      regions = PList [PStr ''kanto'', PStr ''honshu'']\<rparr>)
   = Inr \<lparr>name = PStr ''Tokyo'', state = PNone, country = PStr ''Japan'',
      capital = PBool True, population = PInt 9000000,
      regions = PList [PStr ''kanto'', PStr ''honshu'']\<rparr>"
  using City_from_dict_to_dict
    [of "\<lparr>name = PStr ''Tokyo'', state = PNone, country = PStr ''Japan'',
      capital = PBool True, population = PInt 9000000,
      regions = PList [PStr ''kanto'', PStr ''honshu'']\<rparr>" True 9000000
      "[PStr ''kanto'', PStr ''honshu'']"]
  by simp


section \<open>validated: the first failing check decides\<close>

lemma validated_Cons_ok: "field_ok td p \<Longrightarrow> validated td (p # sd) = validated td sd"
  by (cases p; cases "map_of td (fst p)") (auto simp: field_ok_def)

lemma validated_Cons_bad:
  "\<not> field_ok td p \<Longrightarrow>
     validated td (p # sd) = validated td [p] \<and> (\<exists>e. validated td [p] = Inl e)"
  by (cases p; cases "map_of td (fst p)") (auto simp: field_ok_def)

lemma validated_Inr: "validated td sd = Inr r \<longleftrightarrow> r = td \<and> list_all (field_ok td) sd"
proof (induction sd)
  case Nil
  show ?case by auto
next
  case (Cons p sd)
  show ?case
  proof (cases "field_ok td p")
    case True
    then show ?thesis using Cons.IH by (simp add: validated_Cons_ok)
  next
    case False
    then show ?thesis using validated_Cons_bad[OF False, of sd] by auto
  qed
qed

lemma validated_Inl:
  "validated td sd = Inl e \<longleftrightarrow>
     (\<exists>pre p post. sd = pre @ p # post \<and> list_all (field_ok td) pre
        \<and> validated td [p] = Inl e)"
proof (induction sd)
  case Nil
  show ?case by simp
next
  case (Cons q sd)
  show ?case
  proof (cases "field_ok td q")
    case True
    have ok1: "validated td [q] = Inr td"
      using True validated_Cons_ok[of td q "[]"] by simp
    have "(\<exists>pre p post. q # sd = pre @ p # post \<and> list_all (field_ok td) pre
              \<and> validated td [p] = Inl e)
       \<longleftrightarrow> (\<exists>pre p post. sd = pre @ p # post \<and> list_all (field_ok td) pre
              \<and> validated td [p] = Inl e)"
      (is "?L \<longleftrightarrow> ?R")
    proof
      assume ?L
      then obtain pre p post where h: "q # sd = pre @ p # post"
        "list_all (field_ok td) pre" "validated td [p] = Inl e" by blast
      show ?R
      proof (cases pre)
        case Nil
        with h ok1 show ?thesis by simp
      next
        case (Cons a pre')
        with h have "sd = pre' @ p # post" "list_all (field_ok td) pre'" by simp_all
        with h(3) show ?thesis by blast
      qed
    next
      assume ?R
      then obtain pre p post where h: "sd = pre @ p # post"
        "list_all (field_ok td) pre" "validated td [p] = Inl e" by blast
      then have "q # sd = (q # pre) @ p # post" "list_all (field_ok td) (q # pre)"
        using True by simp_all
      with h(3) show ?L by blast
    qed
    then show ?thesis using Cons.IH True by (simp add: validated_Cons_ok)
  next
    case False
    have eq: "validated td (q # sd) = validated td [q]"
      using validated_Cons_bad[OF False] by blast
    have "(\<exists>pre p post. q # sd = pre @ p # post \<and> list_all (field_ok td) pre
              \<and> validated td [p] = Inl e)
       \<longleftrightarrow> validated td [q] = Inl e" (is "?L \<longleftrightarrow> ?R")
    proof
      assume ?L
      then obtain pre p post where h: "q # sd = pre @ p # post"
        "list_all (field_ok td) pre" "validated td [p] = Inl e" by blast
      show ?R
      proof (cases pre)
        case Nil
        with h show ?thesis by simp
      next
        case (Cons a pre')
        with h False show ?thesis by simp
      qed
    next
      assume ?R
      then have "q # sd = [] @ q # sd \<and> list_all (field_ok td) []
          \<and> validated td [q] = Inl e"
        by simp
      then show ?L by blast
    qed
    then show ?thesis using eq by simp
  qed
qed

lemma validated_single_KeyError:
  "validated td [(f, s)] = Inl (KeyError g) \<longleftrightarrow> g = f \<and> map_of td f = None"
  by (auto split: option.splits)

lemma validated_single_TypeError:
  "validated td [(f, s)] = Inl (TypeError g) \<longleftrightarrow>
     g = f \<and> (\<exists>t. map_of td f = Some t
        \<and> \<not> dtype_is_compatible_with (s_dtype s) (t_dtype t))"
  by (auto split: option.splits)

lemma validated_single_ValueError:
  "validated td [(f, s)] = Inl (ValueError g) \<longleftrightarrow>
     g = f \<and> (\<exists>t. map_of td f = Some t
        \<and> dtype_is_compatible_with (s_dtype s) (t_dtype t)
        \<and> \<not> shape_is_compatible_with (s_shape s) (t_shape t))"
  by (auto split: option.splits)

lemma validated_KeyError_iff:
  "validated td sd = Inl (KeyError f) \<longleftrightarrow>
      (\<exists>pre s post. sd = pre @ (f, s) # post \<and> (\<forall>p \<in> set pre. field_ok td p)
         \<and> map_of td f = None)" (is "?L \<longleftrightarrow> ?R")
proof
  assume ?L
  then obtain pre p post where h: "sd = pre @ p # post" "list_all (field_ok td) pre"
    "validated td [p] = Inl (KeyError f)"
    using iffD1[OF validated_Inl[of td sd "KeyError f"]] by blast
  obtain g s where p: "p = (g, s)" by (cases p)
  from h(3) have "g = f" "map_of td f = None"
    using validated_single_KeyError[of td g s f] unfolding p by simp_all
  with h(1,2) p show ?R unfolding list_all_iff by blast
next
  assume ?R
  then obtain pre s post where h: "sd = pre @ (f, s) # post"
    "\<forall>p \<in> set pre. field_ok td p" "map_of td f = None" by blast
  from h(3) have "validated td [(f, s)] = Inl (KeyError f)"
    using validated_single_KeyError[of td f s f] by simp
  with h(1,2) have "\<exists>pre p post. sd = pre @ p # post \<and> list_all (field_ok td) pre
        \<and> validated td [p] = Inl (KeyError f)" unfolding list_all_iff by blast
  then show ?L using iffD2[OF validated_Inl[of td sd "KeyError f"]] by blast
qed

lemma validated_TypeError_iff:
  "validated td sd = Inl (TypeError f) \<longleftrightarrow>
      (\<exists>pre s post t. sd = pre @ (f, s) # post \<and> (\<forall>p \<in> set pre. field_ok td p)
         \<and> map_of td f = Some t
         \<and> \<not> dtype_is_compatible_with (s_dtype s) (t_dtype t))" (is "?L \<longleftrightarrow> ?R")
proof
  assume ?L
  then obtain pre p post where h: "sd = pre @ p # post" "list_all (field_ok td) pre"
    "validated td [p] = Inl (TypeError f)"
    using iffD1[OF validated_Inl[of td sd "TypeError f"]] by blast
  obtain g s where p: "p = (g, s)" by (cases p)
  from h(3) obtain t where "g = f" "map_of td f = Some t"
    "\<not> dtype_is_compatible_with (s_dtype s) (t_dtype t)"
    using validated_single_TypeError[of td g s f] unfolding p by blast
  with h(1,2) p show ?R unfolding list_all_iff by blast
next
  assume ?R
  then obtain pre s post t where h: "sd = pre @ (f, s) # post"
    "\<forall>p \<in> set pre. field_ok td p" "map_of td f = Some t"
    "\<not> dtype_is_compatible_with (s_dtype s) (t_dtype t)" by blast
  from h(3,4) have "validated td [(f, s)] = Inl (TypeError f)"
    using validated_single_TypeError[of td f s f] by blast
  with h(1,2) have "\<exists>pre p post. sd = pre @ p # post \<and> list_all (field_ok td) pre
        \<and> validated td [p] = Inl (TypeError f)" unfolding list_all_iff by blast
  then show ?L using iffD2[OF validated_Inl[of td sd "TypeError f"]] by blast
qed

lemma validated_ValueError_iff:
  "validated td sd = Inl (ValueError f) \<longleftrightarrow>
      (\<exists>pre s post t. sd = pre @ (f, s) # post \<and> (\<forall>p \<in> set pre. field_ok td p)
         \<and> map_of td f = Some t
         \<and> dtype_is_compatible_with (s_dtype s) (t_dtype t)
         \<and> \<not> shape_is_compatible_with (s_shape s) (t_shape t))" (is "?L \<longleftrightarrow> ?R")
proof
  assume ?L
  then obtain pre p post where h: "sd = pre @ p # post" "list_all (field_ok td) pre"
    "validated td [p] = Inl (ValueError f)"
    using iffD1[OF validated_Inl[of td sd "ValueError f"]] by blast
  obtain g s where p: "p = (g, s)" by (cases p)
  from h(3) obtain t where "g = f" "map_of td f = Some t"
    "dtype_is_compatible_with (s_dtype s) (t_dtype t)"
    "\<not> shape_is_compatible_with (s_shape s) (t_shape t)"
    using validated_single_ValueError[of td g s f] unfolding p by blast
  with h(1,2) p show ?R unfolding list_all_iff by blast
next
  assume ?R
  then obtain pre s post t where h: "sd = pre @ (f, s) # post"
    "\<forall>p \<in> set pre. field_ok td p" "map_of td f = Some t"
    "dtype_is_compatible_with (s_dtype s) (t_dtype t)"
    "\<not> shape_is_compatible_with (s_shape s) (t_shape t)" by blast
  from h(3,4,5) have "validated td [(f, s)] = Inl (ValueError f)"
    using validated_single_ValueError[of td f s f] by blast
  with h(1,2) have "\<exists>pre p post. sd = pre @ p # post \<and> list_all (field_ok td) pre
        \<and> validated td [p] = Inl (ValueError f)" unfolding list_all_iff by blast
  then show ?L using iffD2[OF validated_Inl[of td sd "ValueError f"]] by blast
qed

text \<open>
  Claim C8, as the code has it. \<open>validated\<close> walks \<open>spec_dict\<close> in order and the first
  spec field that fails a check decides the exception: it raises \<open>KeyError\<close> exactly when
  that field is absent from \<open>tensor_dict\<close>, \<open>TypeError\<close> exactly when it is present
  with an incompatible dtype, and \<open>ValueError\<close> exactly when it is present with a
  compatible dtype and an incompatible shape. It raises nothing exactly when every spec
  field is present and compatible, and then returns \<open>tensor_dict\<close> itself; fields of
  \<open>tensor_dict\<close> outside \<open>spec_dict\<close> are never looked at.
\<close>

theorem validated_first_failure:
  "(validated td sd = Inr r \<longleftrightarrow> r = td \<and> (\<forall>p \<in> set sd. field_ok td p))
 \<and> (validated td sd = Inl (KeyError f) \<longleftrightarrow>
      (\<exists>pre s post. sd = pre @ (f, s) # post \<and> (\<forall>p \<in> set pre. field_ok td p)
         \<and> map_of td f = None))
 \<and> (validated td sd = Inl (TypeError f) \<longleftrightarrow>
      (\<exists>pre s post t. sd = pre @ (f, s) # post \<and> (\<forall>p \<in> set pre. field_ok td p)
         \<and> map_of td f = Some t
         \<and> \<not> dtype_is_compatible_with (s_dtype s) (t_dtype t)))
 \<and> (validated td sd = Inl (ValueError f) \<longleftrightarrow>
      (\<exists>pre s post t. sd = pre @ (f, s) # post \<and> (\<forall>p \<in> set pre. field_ok td p)
         \<and> map_of td f = Some t
         \<and> dtype_is_compatible_with (s_dtype s) (t_dtype t)
         \<and> \<not> shape_is_compatible_with (s_shape s) (t_shape t)))"
proof -
  have a: "validated td sd = Inr r \<longleftrightarrow> r = td \<and> (\<forall>p \<in> set sd. field_ok td p)"
    by (simp add: validated_Inr list_all_iff)
  show ?thesis
    by (rule conjI[OF a conjI[OF validated_KeyError_iff
          conjI[OF validated_TypeError_iff validated_ValueError_iff]]])
qed

theorem validated_first_failure_witness:
  "validated
     [(''is_fishing'', \<lparr>t_dtype = DType Float32 False, t_shape = Some [Some 2, Some 1],
         t_values = [0, 1 :: nat]\<rparr>),
      (''extra'', \<lparr>t_dtype = DType Int64 False, t_shape = Some [], t_values = [7]\<rparr>)]
     OUTPUTS_SPEC
   = Inr [(''is_fishing'', \<lparr>t_dtype = DType Float32 False, t_shape = Some [Some 2, Some 1],
         t_values = [0, 1]\<rparr>),
      (''extra'', \<lparr>t_dtype = DType Int64 False, t_shape = Some [], t_values = [7]\<rparr>)]"
  using validated_first_failure
    [of "[(''is_fishing'', \<lparr>t_dtype = DType Float32 False, t_shape = Some [Some 2, Some 1],
         t_values = [0, 1 :: nat]\<rparr>),
      (''extra'', \<lparr>t_dtype = DType Int64 False, t_shape = Some [], t_values = [7]\<rparr>)]"
      OUTPUTS_SPEC
      "[(''is_fishing'', \<lparr>t_dtype = DType Float32 False, t_shape = Some [Some 2, Some 1],
         t_values = [0, 1 :: nat]\<rparr>),
      (''extra'', \<lparr>t_dtype = DType Int64 False, t_shape = Some [], t_values = [7]\<rparr>)]"]
  by (simp add: OUTPUTS_SPEC_def float32_column_def field_ok_def
        dtype_is_compatible_with_def)

text \<open>
  The claim as worded fails: with \<open>INPUTS_SPEC\<close> as the spec, a dictionary holding only
  \<open>distance_from_port\<close>, as an int32 tensor, lacks the spec field \<open>speed\<close>, yet the
  call raises \<open>TypeError\<close> for \<open>distance_from_port\<close>, not \<open>KeyError\<close>.
\<close>

theorem validated_KeyError_iff_counterexample:
  "validated
     [(''distance_from_port'', \<lparr>t_dtype = DType Int32 False,
         t_shape = Some [Some 1, Some 1], t_values = [3 :: nat]\<rparr>)]
     INPUTS_SPEC = Inl (TypeError ''distance_from_port'')
   \<and> dict_has INPUTS_SPEC ''speed''
   \<and> \<not> dict_has
       [(''distance_from_port'', \<lparr>t_dtype = DType Int32 False,
           t_shape = Some [Some 1, Some 1], t_values = [3 :: nat]\<rparr>)] ''speed''"
  by (simp add: INPUTS_SPEC_def float32_column_def dict_has_def
        dtype_is_compatible_with_def)


section \<open>serialize followed by deserialize\<close>

lemma column_shape_iff: "column_shape sh \<longleftrightarrow> (\<exists>n. sh = Some [Some n, Some 1])"
  by (cases sh rule: column_shape.cases) auto

lemma spec_dict_eq: "dict_merge INPUTS_SPEC OUTPUTS_SPEC = INPUTS_SPEC @ OUTPUTS_SPEC"
  by (simp add: dict_merge_def INPUTS_SPEC_def OUTPUTS_SPEC_def)

lemma spec_all_float32:
  "(f, s) \<in> set (INPUTS_SPEC @ OUTPUTS_SPEC) \<Longrightarrow> s = float32_column"
  by (auto simp: INPUTS_SPEC_def OUTPUTS_SPEC_def)

lemma column_tensor_compatible:
  assumes "column_tensor t"
  shows "dtype_is_compatible_with (s_dtype float32_column) (t_dtype t)"
    and "shape_is_compatible_with (s_shape float32_column) (t_shape t)"
    and "set_shape t (s_shape float32_column) = Inr t"
proof -
  from assms obtain n where d: "t_dtype t = DType Float32 False"
    and sh: "t_shape t = Some [Some n, Some 1]"
    unfolding column_tensor_def column_shape_iff by blast
  show "dtype_is_compatible_with (s_dtype float32_column) (t_dtype t)"
    by (simp add: d float32_column_def dtype_is_compatible_with_def)
  show "shape_is_compatible_with (s_shape float32_column) (t_shape t)"
    by (simp add: sh float32_column_def)
  have "t\<lparr>t_shape := Some [Some n, Some 1]\<rparr> = t" using sh by (cases t) simp
  then show "set_shape t (s_shape float32_column) = Inr t"
    by (simp add: sh float32_column_def set_shape_def)
qed

lemma convert_items_ok:
  assumes "\<forall>fv \<in> set vd. \<exists>s t. map_of sd (fst fv) = Some s
             \<and> convert_to_tensor ops (snd fv) (s_dtype s) = Inr t \<and> P t"
  shows "\<exists>td. convert_items ops sd vd = Inr td \<and> map fst td = map fst vd
           \<and> (\<forall>ft \<in> set td. P (snd ft))"
  using assms
proof (induction vd)
  case Nil
  show ?case by simp
next
  case (Cons fv vd)
  obtain f v where fv: "fv = (f, v)" by (cases fv)
  from Cons.prems obtain s t where st: "map_of sd f = Some s"
    "convert_to_tensor ops v (s_dtype s) = Inr t" "P t" unfolding fv by auto
  from Cons.prems have "\<forall>fv \<in> set vd. \<exists>s t. map_of sd (fst fv) = Some s
             \<and> convert_to_tensor ops (snd fv) (s_dtype s) = Inr t \<and> P t" by simp
  from Cons.IH[OF this] obtain td where td: "convert_items ops sd vd = Inr td"
    "map fst td = map fst vd" "\<forall>ft \<in> set td. P (snd ft)" by blast
  have "convert_items ops sd (fv # vd) = Inr ((f, t) # td)"
    by (simp add: fv dict_get_def st td)
  with td st(3) show ?case by (simp add: fv)
qed

lemma parse_items_ok:
  assumes "\<forall>nb \<in> set ex. \<forall>s. map_of sd (fst nb) = Some s
             \<longrightarrow> parse_tensor ops (snd nb) s = Inr (g (fst nb))"
  shows "parse_items ops sd ex
    = Inr (map (\<lambda>nb. (fst nb, g (fst nb))) (filter (\<lambda>nb. map_of sd (fst nb) \<noteq> None) ex))"
  using assms
proof (induction ex)
  case Nil
  show ?case by simp
next
  case (Cons nb ex)
  obtain n b where nb: "nb = (n, b)" by (cases nb)
  from Cons.prems have rest: "\<forall>nb \<in> set ex. \<forall>s. map_of sd (fst nb) = Some s
             \<longrightarrow> parse_tensor ops (snd nb) s = Inr (g (fst nb))" by simp
  note ih = Cons.IH[OF rest]
  show ?case
  proof (cases "map_of sd n")
    case None
    then show ?thesis using ih by (simp add: nb)
  next
    case (Some s)
    with Cons.prems have "parse_tensor ops b s = Inr (g n)" unfolding nb by simp
    then show ?thesis using ih Some by (simp add: nb)
  qed
qed

lemma map_of_map_filter:
  "map_of (map (\<lambda>nb. (fst nb, g (fst nb))) (filter (\<lambda>nb. P (fst nb)) ex)) k
     = (if k \<in> fst ` set ex \<and> P k then Some (g k) else None)"
  by (induction ex) (auto simp: image_iff)

lemma parse_features_ok:
  assumes sub: "set SD \<subseteq> set (INPUTS_SPEC @ OUTPUTS_SPEC)"
    and keys: "fst ` set SD \<subseteq> fst ` set ex"
    and ex: "\<forall>nb \<in> set ex. \<exists>t. map_of td (fst nb) = Some t \<and> column_tensor t
               \<and> io_parse_tensor ops (snd nb) (DType Float32 False) = Inr t"
  shows "\<exists>r. parse_features ops ex SD = Inr r \<and> map_of r = map_of td |` (fst ` set SD)"
proof -
  define g where "g n = the (map_of td n)" for n
  have spec: "s = float32_column" if "map_of SD n = Some s" for n s
    using that sub spec_all_float32[of n s] by (auto dest: map_of_SomeD)
  have pt: "\<forall>nb \<in> set ex. \<forall>s. map_of SD (fst nb) = Some s
             \<longrightarrow> parse_tensor ops (snd nb) s = Inr (g (fst nb))"
  proof (intro ballI allI impI)
    fix nb s assume nb: "nb \<in> set ex" and s: "map_of SD (fst nb) = Some s"
    from ex nb obtain t where t: "map_of td (fst nb) = Some t" "column_tensor t"
      "io_parse_tensor ops (snd nb) (DType Float32 False) = Inr t" by blast
    have "s = float32_column" using spec[OF s] .
    then show "parse_tensor ops (snd nb) s = Inr (g (fst nb))"
      using t column_tensor_compatible(3)[OF t(2)]
      by (simp add: parse_tensor_def g_def float32_column_def)
  qed
  define r where
    "r = map (\<lambda>nb. (fst nb, g (fst nb))) (filter (\<lambda>nb. map_of SD (fst nb) \<noteq> None) ex)"
  have items: "parse_items ops SD ex = Inr r"
    unfolding r_def by (rule parse_items_ok[OF pt])
  have look: "map_of r k = (if k \<in> fst ` set ex \<and> map_of SD k \<noteq> None then Some (g k) else None)"
    for k unfolding r_def by (rule map_of_map_filter[of g "\<lambda>k. map_of SD k \<noteq> None" ex k])
  have present: "map_of td k = Some (g k) \<and> column_tensor (g k)" if "k \<in> fst ` set ex" for k
  proof -
    from that obtain nb where "nb \<in> set ex" "fst nb = k" by auto
    with ex show ?thesis unfolding g_def by fastforce
  qed
  have eq: "map_of r = map_of td |` (fst ` set SD)"
  proof
    fix k
    show "map_of r k = (map_of td |` (fst ` set SD)) k"
    proof (cases "k \<in> fst ` set SD")
      case True
      then have "k \<in> fst ` set ex" using keys by blast
      moreover have "map_of SD k \<noteq> None" using True by (simp add: map_of_eq_None_iff)
      ultimately show ?thesis using True present[of k] by (simp add: look restrict_map_def)
    next
      case False
      then have "map_of SD k = None" by (simp add: map_of_eq_None_iff)
      then show ?thesis using False by (simp add: look restrict_map_def)
    qed
  qed
  have "list_all (field_ok r) SD"
    unfolding list_all_iff
  proof
    fix p assume p: "p \<in> set SD"
    obtain f s where fs: "p = (f, s)" by (cases p)
    from p sub have s: "s = float32_column" using spec_all_float32[of f s] by (auto simp: fs)
    from p have fk: "f \<in> fst ` set SD" unfolding fs by force
    then have "f \<in> fst ` set ex" using keys by blast
    from present[OF this] have col: "column_tensor (g f)" and "map_of td f = Some (g f)"
      by simp_all
    then have "map_of r f = Some (g f)" using fk by (simp add: eq restrict_map_def)
    then show "field_ok r p"
      using column_tensor_compatible(1,2)[OF col] by (simp add: field_ok_def fs s)
  qed
  then have "validated r SD = Inr r" by (simp add: validated_Inr)
  then have "parse_features ops ex SD = Inr r" by (simp add: parse_features_def items)
  with eq show ?thesis by blast
qed

text \<open>
  Claim C1, as the code has it. A round-trip law does hold for \<open>serialize\<close> and
  \<open>deserialize\<close>: for every value dictionary whose fields conform to \<open>INPUTS_SPEC\<close> and
  \<open>OUTPUTS_SPEC\<close>, \<open>serialize\<close> returns a byte string and \<open>deserialize\<close> of it returns
  the input tensors, split into the inputs and the outputs dictionary. The library
  codecs are assumed to invert each other: parsing a serialized tensor at its own dtype
  gives the tensor back, and parsing a serialized \<open>Example\<close> returns, for the requested
  features that hold one value each, those values.
\<close>

theorem serialize_deserialize_roundtrip:
  fixes ops :: "('v, 'a, 'b) tf_ops"
  assumes conf: "conforms ops value_dict"
    and pt: "\<And>t. io_parse_tensor ops (io_serialize_tensor ops t) (t_dtype t) = Inr t"
    and pe: "\<And>feats names. \<forall>n \<in> set names. \<exists>b. map_of feats n = Some [b] \<Longrightarrow>
        \<exists>ex. io_parse_example ops (Example_SerializeToString ops feats) names = Inr ex
           \<and> fst ` set ex = set names
           \<and> (\<forall>nb \<in> set ex. map_of feats (fst nb) = Some [snd nb])"
  shows "\<exists>td b ins outs.
      convert_items ops (dict_merge INPUTS_SPEC OUTPUTS_SPEC) value_dict = Inr td
      \<and> map fst td = map fst value_dict
      \<and> serialize ops value_dict = Inr b
      \<and> deserialize ops b = Inr (ins, outs)
      \<and> map_of ins = map_of td |` (fst ` set INPUTS_SPEC)
      \<and> map_of outs = map_of td |` (fst ` set OUTPUTS_SPEC)"
proof -
  let ?sd = "INPUTS_SPEC @ OUTPUTS_SPEC"
  let ?names = "map fst INPUTS_SPEC @ map fst OUTPUTS_SPEC"
  from conf have keys: "set (map fst value_dict) = set ?names"
    and conv: "list_all (\<lambda>fv. case convert_to_tensor ops (snd fv) (DType Float32 False) of
                          Inl e \<Rightarrow> False | Inr t \<Rightarrow> column_tensor t) value_dict"
    unfolding conforms_def by simp_all
  have spec: "s = float32_column" if "map_of ?sd n = Some s" for n s
    using that spec_all_float32[of n s] by (auto dest: map_of_SomeD)
  have pre: "\<forall>fv \<in> set value_dict. \<exists>s t. map_of ?sd (fst fv) = Some s
             \<and> convert_to_tensor ops (snd fv) (s_dtype s) = Inr t \<and> column_tensor t"
  proof
    fix fv assume fv: "fv \<in> set value_dict"
    then have "fst fv \<in> set (map fst value_dict)" by simp
    then have "fst fv \<in> set ?names" unfolding keys .
    then have "fst fv \<in> fst ` set ?sd" by (simp add: image_Un)
    then have "map_of ?sd (fst fv) \<noteq> None"
      by (simp only: map_of_eq_None_iff not_not)
    then obtain s where s: "map_of ?sd (fst fv) = Some s"
      by (auto simp only: not_None_eq)
    have sf: "s_dtype s = DType Float32 False"
      using spec[OF s] by (simp add: float32_column_def)
    from conv fv have c: "case convert_to_tensor ops (snd fv) (DType Float32 False) of
        Inl e \<Rightarrow> False | Inr t \<Rightarrow> column_tensor t" unfolding list_all_iff by blast
    then obtain t where "convert_to_tensor ops (snd fv) (DType Float32 False) = Inr t"
      "column_tensor t"
      by (cases "convert_to_tensor ops (snd fv) (DType Float32 False)") simp_all
    with s sf show "\<exists>s t. map_of ?sd (fst fv) = Some s
             \<and> convert_to_tensor ops (snd fv) (s_dtype s) = Inr t \<and> column_tensor t"
      by auto
  qed
  from convert_items_ok[OF pre] obtain td where td:
    "convert_items ops ?sd value_dict = Inr td" "map fst td = map fst value_dict"
    "\<forall>ft \<in> set td. column_tensor (snd ft)" by blast
  have "set (map fst td) = set (map fst value_dict)" by (rule arg_cong[OF td(2)])
  then have tdkeys: "fst ` set td = set ?names" using keys by simp
  have present: "\<exists>t. map_of td n = Some t \<and> column_tensor t" if "n \<in> set ?names" for n
  proof -
    from that tdkeys have "n \<in> fst ` set td" by simp
    then obtain t where t: "map_of td n = Some t"
      using map_of_eq_None_iff[of td n] by auto
    from map_of_SomeD[OF t] td(3) have "column_tensor t" by force
    with t show ?thesis by blast
  qed
  have "list_all (field_ok td) ?sd"
    unfolding list_all_iff
  proof
    fix p assume p: "p \<in> set ?sd"
    obtain f s where fs: "p = (f, s)" by (cases p)
    from p have s: "s = float32_column" using spec_all_float32[of f s] by (simp add: fs)
    from p have "fst (f, s) \<in> fst ` set ?sd" unfolding fs by (rule imageI)
    then have "f \<in> set ?names" by (simp add: image_Un)
    from present[OF this] obtain t where t: "map_of td f = Some t" "column_tensor t" by blast
    show "field_ok td p"
      using t(1) column_tensor_compatible(1,2)[OF t(2)] by (simp add: field_ok_def fs s)
  qed
  then have val: "validated td ?sd = Inr td" by (simp add: validated_Inr)
  define feats where "feats = map (\<lambda>fv. (fst fv, [io_serialize_tensor ops (snd fv)])) td"
  define b where "b = Example_SerializeToString ops feats"
  have ser: "serialize ops value_dict = Inr b"
    by (simp add: serialize_def spec_dict_eq td(1) val b_def feats_def)
  have feats_look: "map_of feats n = map_option (\<lambda>t. [io_serialize_tensor ops t]) (map_of td n)"
    for n unfolding feats_def by (induction td) auto
  have "\<forall>n \<in> set ?names. \<exists>x. map_of feats n = Some [x]"
  proof
    fix n assume "n \<in> set ?names"
    from present[OF this] show "\<exists>x. map_of feats n = Some [x]"
      by (auto simp: feats_look)
  qed
  from pe[OF this] obtain ex where ex:
    "io_parse_example ops b ?names = Inr ex" "fst ` set ex = set ?names"
    "\<forall>nb \<in> set ex. map_of feats (fst nb) = Some [snd nb]"
    unfolding b_def by blast
  have exok: "\<forall>nb \<in> set ex. \<exists>t. map_of td (fst nb) = Some t \<and> column_tensor t
               \<and> io_parse_tensor ops (snd nb) (DType Float32 False) = Inr t"
  proof
    fix nb assume nb: "nb \<in> set ex"
    then have "fst nb \<in> fst ` set ex" by simp
    then have "fst nb \<in> set ?names" unfolding ex(2) .
    from present[OF this] obtain t where t: "map_of td (fst nb) = Some t" "column_tensor t"
      by blast
    from ex(3) nb have "map_of feats (fst nb) = Some [snd nb]" by blast
    then have sn: "snd nb = io_serialize_tensor ops t" using t(1) by (simp add: feats_look)
    have "t_dtype t = DType Float32 False" using t(2) by (simp add: column_tensor_def)
    then have "io_parse_tensor ops (snd nb) (DType Float32 False) = Inr t"
      using pt[of t] sn by simp
    with t show "\<exists>t. map_of td (fst nb) = Some t \<and> column_tensor t
               \<and> io_parse_tensor ops (snd nb) (DType Float32 False) = Inr t" by blast
  qed
  have k1: "fst ` set INPUTS_SPEC \<subseteq> fst ` set ex" using ex(2) by auto
  have k2: "fst ` set OUTPUTS_SPEC \<subseteq> fst ` set ex" using ex(2) by auto
  from parse_features_ok[OF _ k1 exok] obtain ins where ins:
    "parse_features ops ex INPUTS_SPEC = Inr ins"
    "map_of ins = map_of td |` (fst ` set INPUTS_SPEC)" by auto
  from parse_features_ok[OF _ k2 exok] obtain outs where outs:
    "parse_features ops ex OUTPUTS_SPEC = Inr outs"
    "map_of outs = map_of td |` (fst ` set OUTPUTS_SPEC)" by auto
  have des: "deserialize ops b = Inr (ins, outs)"
    by (simp add: deserialize_def ex(1) ins(1) outs(1))
  show ?thesis
    apply (rule exI[of _ td])
    apply (rule exI[of _ b])
    apply (rule exI[of _ ins])
    apply (rule exI[of _ outs])
    apply (simp add: spec_dict_eq td(1,2) ser des ins(2) outs(2))
    done
qed

lemma ref_collect_ok:
  assumes "\<forall>n \<in> set names. \<exists>b. map_of feats n = Some [b]"
  shows "\<exists>ex. ref_collect feats names = Inr ex \<and> fst ` set ex = set names
           \<and> (\<forall>nb \<in> set ex. map_of feats (fst nb) = Some [snd nb])"
  using assms
proof (induction names)
  case Nil
  show ?case by simp
next
  case (Cons n names)
  from Cons.prems obtain b where b: "map_of feats n = Some [b]" by auto
  from Cons.prems have "\<forall>n \<in> set names. \<exists>b. map_of feats n = Some [b]" by simp
  from Cons.IH[OF this] obtain ex where ex: "ref_collect feats names = Inr ex"
    "fst ` set ex = set names" "\<forall>nb \<in> set ex. map_of feats (fst nb) = Some [snd nb]"
    by blast
  have "ref_collect feats (n # names) = Inr ((n, b) # ex)" by (simp add: b ex(1))
  with b ex(2,3) show ?case by simp
qed

lemma conforms_example_values: "conforms ref_ops example_values"
  by (simp add: conforms_def example_values_def ref_ops_def column_tensor_def INPUTS_SPEC_def
      OUTPUTS_SPEC_def insert_commute)

theorem serialize_deserialize_roundtrip_witness:
  "conforms ref_ops example_values \<and>
   (\<exists>td b ins outs.
      convert_items ref_ops (dict_merge INPUTS_SPEC OUTPUTS_SPEC) example_values = Inr td
      \<and> map fst td = map fst example_values
      \<and> serialize ref_ops example_values = Inr b
      \<and> deserialize ref_ops b = Inr (ins, outs)
      \<and> map_of ins = map_of td |` (fst ` set INPUTS_SPEC)
      \<and> map_of outs = map_of td |` (fst ` set OUTPUTS_SPEC))"
proof -
  have pt: "\<And>t :: nat tensor.
      io_parse_tensor ref_ops (io_serialize_tensor ref_ops t) (t_dtype t) = Inr t"
    by (simp add: ref_ops_def)
  have pe: "\<And>(feats :: (string \<times> nat wire list) list) names.
      \<forall>n \<in> set names. \<exists>b. map_of feats n = Some [b] \<Longrightarrow>
        \<exists>ex. io_parse_example ref_ops (Example_SerializeToString ref_ops feats) names = Inr ex
           \<and> fst ` set ex = set names
           \<and> (\<forall>nb \<in> set ex. map_of feats (fst nb) = Some [snd nb])"
    using ref_collect_ok by (simp add: ref_ops_def)
  from serialize_deserialize_roundtrip[of ref_ops example_values, OF conforms_example_values pt pe] conforms_example_values
  show ?thesis by (rule conjI[rotated])
qed

text \<open>
  The claim as worded fails at a concrete input: on \<open>example_values\<close>, \<open>serialize\<close>
  followed by \<open>deserialize\<close> does reproduce the input tensors, split into the inputs
  and outputs dictionaries.
\<close>

theorem serialize_deserialize_reproduces_counterexample:
  "deserialize_serialize ref_ops example_values =
     Inr ([(''distance_from_port'', column [5, 6]), (''speed'', column [1, 2]),
           (''course'', column [90, 91]), (''lat'', column [10, 11]),
           (''lon'', column [20, 21])],
          [(''is_fishing'', column [0, 1])])"
  by code_simp


section \<open>Routing of WSGI requests\<close>

lemma first_some_None_iff: "first_some xs = None \<longleftrightarrow> (\<forall>x \<in> set xs. x = None)"
  by (induction xs rule: first_some.induct) auto

lemma first_some_SomeD: "first_some xs = Some g \<Longrightarrow> Some g \<in> set xs"
  by (induction xs rule: first_some.induct) auto

lemma route_no_match:
  "\<forall>rh \<in> set routes. re_search (fst rh) path = None \<Longrightarrow> route routes environ path = not_found"
  by (induction routes) auto

lemma route_first_match:
  assumes "\<forall>rh \<in> set pre. re_search (fst rh) path = None"
    and "re_search regex path = Some g"
  shows "route (pre @ (regex, h) # post) environ path
    = Called h (dict_set environ ''app.url_args'' (PList (map PStr g)))"
  using assms by (induction pre) auto

lemma form_no_match:
  assumes "path \<noteq> []" and "path \<noteq> [newline]"
  shows "re_search upload_form_re path = None"
proof -
  have "match_here upload_form_re (i = 0) (drop i path) = None" for i
    using assms by (cases "i = 0") (simp_all add: upload_form_re_def)
  then show ?thesis unfolding re_search_def first_some_None_iff by simp
qed

lemma no_groups:
  "GroupAnyPlus \<notin> set r \<Longrightarrow> match_here r b s = Some g \<Longrightarrow> g = []"
proof (induction r arbitrary: b s)
  case Nil
  then show ?case by simp
next
  case (Cons a r)
  then show ?case
    by (cases a) (auto split: if_splits list.splits option.splits)
qed

lemma upload_match:
  "match_here upload_photo_re b ''upload_photo'' = Some []"
  "match_here upload_photo_re b ''upload_photo/'' = Some []"
  by (simp_all add: upload_photo_re_def)

lemma upload_search:
  assumes "path = pre @ ''upload_photo'' \<or> path = pre @ ''upload_photo/''"
  shows "re_search upload_photo_re path = Some []"
proof -
  let ?re = "upload_photo_re"
  let ?f = "\<lambda>i. match_here ?re (i = 0) (drop i path)"
  have at: "?f (length pre) = Some []"
    using assms upload_match[of "length pre = 0"] by auto
  have mem: "length pre \<in> set [0 ..< Suc (length path)]" using assms by auto
  have "first_some (map ?f [0 ..< Suc (length path)]) \<noteq> None"
  proof
    assume "first_some (map ?f [0 ..< Suc (length path)]) = None"
    then have "\<forall>x \<in> set (map ?f [0 ..< Suc (length path)]). x = None"
      by (simp only: first_some_None_iff)
    then have "\<forall>i \<in> set [0 ..< Suc (length path)]. ?f i = None"
      by (simp only: set_map ball_simps)
    then have "?f (length pre) = None" using mem by (rule bspec)
    with at show False by simp
  qed
  then obtain g where g: "first_some (map ?f [0 ..< Suc (length path)]) = Some g"
    by (auto simp only: not_None_eq)
  from first_some_SomeD[OF g] have "Some g \<in> ?f ` set [0 ..< Suc (length path)]"
    by (simp only: set_map)
  then obtain i where "Some g = ?f i" by (auto simp only: image_iff)
  then have "?f i = Some g" by (rule sym)
  then have "g = []" by (rule no_groups[rotated]) (simp add: upload_photo_re_def)
  with g show ?thesis unfolding re_search_def by simp
qed

text \<open>
  Claim C5. For every request whose \<open>PATH_INFO\<close> is the string \<open>path_info\<close> (or is
  absent, which reads as the empty string), \<open>Application.__call__\<close> works on
  \<open>path_info\<close> without its leading \<open>/\<close> characters. It answers with status
  \<open>404 Not Found\<close> when no route's regex matches that stripped path; otherwise it
  dispatches to the handler of the first route, in list order, whose regex matches by
  \<open>re.search\<close>, after storing \<open>match.groups()\<close> in \<open>environ['app.url_args']\<close>. With the
  route table \<open>urls\<close>, every path whose stripped form ends in \<open>upload_photo\<close> or
  \<open>upload_photo/\<close> is dispatched to \<open>UploadPhotoHandler\<close>.
\<close>

theorem Application_call_dispatch:
  assumes info: "map_of environ ''PATH_INFO'' = Some (PStr path_info)
      \<or> map_of environ ''PATH_INFO'' = None \<and> path_info = []"
  shows "((\<forall>rh \<in> set routes.
              re_search (fst rh) (dropWhile (\<lambda>c. c = CHR ''/'') path_info) = None)
            \<longrightarrow> Application_call routes environ
                = Inr (Response ''404 Not Found'' [(''Content-Type'', ''text/plain'')]
                        [''404 Not Found'']))
    \<and> (routes = pre @ (regex, h) # post
          \<and> (\<forall>rh \<in> set pre.
                re_search (fst rh) (dropWhile (\<lambda>c. c = CHR ''/'') path_info) = None)
          \<and> re_search regex (dropWhile (\<lambda>c. c = CHR ''/'') path_info) = Some g
        \<longrightarrow> Application_call routes environ
            = Inr (Called h (dict_set environ ''app.url_args'' (PList (map PStr g)))))
    \<and> (dropWhile (\<lambda>c. c = CHR ''/'') path_info = before @ ''upload_photo''
          \<or> dropWhile (\<lambda>c. c = CHR ''/'') path_info = before @ ''upload_photo/''
        \<longrightarrow> Application_call urls environ
            = Inr (Called UploadPhotoHandler (dict_set environ ''app.url_args'' (PList []))))"
proof -
  define path where "path = dropWhile (\<lambda>c. c = CHR ''/'') path_info"
  have path: "stripped_path environ = Inr path"
    using info by (auto simp: stripped_path_def path_def)
  have none: "Application_call routes environ
      = Inr (Response ''404 Not Found'' [(''Content-Type'', ''text/plain'')] [''404 Not Found''])"
    if "\<forall>rh \<in> set routes. re_search (fst rh) path = None"
    using route_no_match[OF that, of environ]
    by (simp add: Application_call_def path not_found_def)
  have first: "Application_call routes environ
      = Inr (Called h (dict_set environ ''app.url_args'' (PList (map PStr g))))"
    if "routes = pre @ (regex, h) # post
          \<and> (\<forall>rh \<in> set pre. re_search (fst rh) path = None)
          \<and> re_search regex path = Some g"
    using that route_first_match[of pre path regex g h post environ]
    by (simp add: Application_call_def path)
  have upload: "Application_call urls environ
      = Inr (Called UploadPhotoHandler (dict_set environ ''app.url_args'' (PList [])))"
    if u: "path = before @ ''upload_photo'' \<or> path = before @ ''upload_photo/''"
  proof -
    from u have ne: "path \<noteq> []" "path \<noteq> [newline]" by (auto simp: newline_def)
    have "route urls environ path
        = Called UploadPhotoHandler (dict_set environ ''app.url_args'' (PList []))"
      by (simp add: urls_def form_no_match[OF ne] upload_search[OF u])
    then show ?thesis by (simp add: Application_call_def path)
  qed
  from none first upload show ?thesis unfolding path_def by blast
qed

theorem Application_call_dispatch_witness:
  "Application_call urls [(''PATH_INFO'', PStr ''//admin/upload_photo/'')]
     = Inr (Called UploadPhotoHandler
         [(''PATH_INFO'', PStr ''//admin/upload_photo/''), (''app.url_args'', PList [])])
   \<and> Application_call urls [(''PATH_INFO'', PStr ''/view_photo/k1'')]
     = Inr (Called ViewPhotoHandler
         [(''PATH_INFO'', PStr ''/view_photo/k1''), (''app.url_args'', PList [PStr ''k1''])])
   \<and> Application_call urls [(''PATH_INFO'', PStr ''/about'')]
     = Inr (Response ''404 Not Found'' [(''Content-Type'', ''text/plain'')] [''404 Not Found''])"
proof -
  have view: "re_search upload_form_re ''view_photo/k1'' = None"
    "re_search upload_photo_re ''view_photo/k1'' = None"
    "re_search view_photo_re ''view_photo/k1'' = Some [''k1'']"
    by code_simp+
  have about: "re_search upload_form_re ''about'' = None"
    "re_search upload_photo_re ''about'' = None"
    "re_search view_photo_re ''about'' = None"
    by code_simp+
  have a: "Application_call urls [(''PATH_INFO'', PStr ''//admin/upload_photo/'')]
     = Inr (Called UploadPhotoHandler
         [(''PATH_INFO'', PStr ''//admin/upload_photo/''), (''app.url_args'', PList [])])"
    using Application_call_dispatch[where environ = "[(''PATH_INFO'', PStr ''//admin/upload_photo/'')]"
        and path_info = "''//admin/upload_photo/''" and before = "''admin/''"
        and routes = urls and pre = "[]" and regex = upload_form_re
        and h = UploadFormHandler and post = "tl urls" and g = "[]"]
    by simp
  have b: "Application_call urls [(''PATH_INFO'', PStr ''/view_photo/k1'')]
     = Inr (Called ViewPhotoHandler
         [(''PATH_INFO'', PStr ''/view_photo/k1''), (''app.url_args'', PList [PStr ''k1''])])"
    using Application_call_dispatch[where environ = "[(''PATH_INFO'', PStr ''/view_photo/k1'')]"
        and path_info = "''/view_photo/k1''" and before = "[]"
        and routes = urls
        and pre = "[(upload_form_re, UploadFormHandler), (upload_photo_re, UploadPhotoHandler)]"
        and regex = view_photo_re and h = ViewPhotoHandler and post = "[]"
        and g = "[''k1'']"]
    by (simp add: urls_def view)
  have c: "Application_call urls [(''PATH_INFO'', PStr ''/about'')]
     = Inr (Response ''404 Not Found'' [(''Content-Type'', ''text/plain'')] [''404 Not Found''])"
    using Application_call_dispatch[where environ = "[(''PATH_INFO'', PStr ''/about'')]"
        and path_info = "''/about''" and before = "[]"
        and routes = urls and pre = "[]" and regex = upload_form_re
        and h = UploadFormHandler and post = "tl urls" and g = "[]"]
    by (simp add: urls_def about)
  from a b c show ?thesis by (rule conjI[OF _ conjI])
qed


section \<open>Error responses of the Pub/Sub handler\<close>

text \<open>
  Claim C2, as the code has it. The corpus has a code path outside the tests that catches
  exceptions and turns them into a user-facing error response: the handler \<open>index\<close>
  catches \<open>MissingRequiredFields\<close>, \<open>InvalidStructuredJSON\<close> and
  \<open>InvalidRequiredFields\<close> raised while parsing the request and answers each with
  HTTP 400, and it also answers HTTP 400 when the event data is empty, is not a dict, or
  is a dict without the key \<open>message\<close>.
\<close>

theorem index_handles_errors:
  "index decode (Inl MissingRequiredFields)
     = Inr (''Failed to find all required cloudevent fields. '', 400)
   \<and> index decode (Inl InvalidStructuredJSON)
     = Inr (''Could not deserialize the payload as JSON. '', 400)
   \<and> index decode (Inl InvalidRequiredFields)
     = Inr (''Request contained invalid required cloudevent fields. '', 400)
   \<and> (\<not> truthy (ce_data event)
      \<longrightarrow> index decode (Inr event) = Inr (''Bad Request: no Pub/Sub message received'', 400))
   \<and> (truthy (ce_data event) \<and> (\<forall>d. ce_data event \<noteq> PDict d)
      \<longrightarrow> index decode (Inr event)
          = Inr (''Bad Request: invalid Pub/Sub message format'', 400))
   \<and> (truthy (ce_data event) \<and> ce_data event = PDict d \<and> ''message'' \<notin> fst ` set d
      \<longrightarrow> index decode (Inr event)
          = Inr (''Bad Request: invalid Pub/Sub message format'', 400))"
proof -
  have nodict: "envelope_message v = None" if "\<forall>d. v \<noteq> PDict d" for v
    using that by (cases v) simp_all
  have nokey: "envelope_message (PDict d) = None" if "''message'' \<notin> fst ` set d"
    using that by (simp add: map_of_eq_None_iff)
  show ?thesis
    using nokey by (auto simp: index_def Let_def nodict)
qed

theorem index_handles_errors_witness:
  "index (\<lambda>d. Inl (TypeError ''b64decode''))
       (Inr \<lparr>ce_id = ''7'', ce_data = PDict []\<rparr>)
     = Inr (''Bad Request: no Pub/Sub message received'', 400)
   \<and> index (\<lambda>d. Inl (TypeError ''b64decode''))
       (Inr \<lparr>ce_id = ''7'', ce_data = PList [PInt 1]\<rparr>)
     = Inr (''Bad Request: invalid Pub/Sub message format'', 400)
   \<and> index (\<lambda>d. Inl (TypeError ''b64decode''))
       (Inr \<lparr>ce_id = ''7'', ce_data = PDict [(''subscription'', PStr ''s'')]\<rparr>)
     = Inr (''Bad Request: invalid Pub/Sub message format'', 400)"
  using index_handles_errors[where event = "\<lparr>ce_id = ''7'', ce_data = PDict []\<rparr>"
      and decode = "\<lambda>d. Inl (TypeError ''b64decode'')" and d = "[]"]
    index_handles_errors[where event = "\<lparr>ce_id = ''7'', ce_data = PList [PInt 1]\<rparr>"
      and decode = "\<lambda>d. Inl (TypeError ''b64decode'')" and d = "[]"]
    index_handles_errors[where
      event = "\<lparr>ce_id = ''7'', ce_data = PDict [(''subscription'', PStr ''s'')]\<rparr>"
      and decode = "\<lambda>d. Inl (TypeError ''b64decode'')"
      and d = "[(''subscription'', PStr ''s'')]"]
  by simp

text \<open>
  The claim as worded fails: \<open>index\<close> is not test code, and when parsing the request
  raises \<open>InvalidStructuredJSON\<close> it does not let the exception propagate but turns it
  into an HTTP 400 response.
\<close>

theorem index_catches_counterexample:
  "index (\<lambda>d. Inl (TypeError ''b64decode'')) (Inl InvalidStructuredJSON)
     = Inr (''Could not deserialize the payload as JSON. '', 400)"
  by (simp add: index_def)


section \<open>Requests issued by disable_service_account\<close>

text \<open>
  Claim C3, as the code has it. For every \<open>project_id\<close> and \<open>account\<close>,
  \<open>disable_service_account\<close> sends a \<open>DisableServiceAccountRequest\<close> for
  \<open>projects/{project_id}/serviceAccounts/{account}\<close>. When that request raises, it is the
  only RPC, nothing is printed and the exception propagates. Otherwise a second RPC
  follows, a \<open>GetServiceAccountRequest\<close> for the same name: when it raises, nothing is
  printed and the exception propagates; when it returns, the line
  \<open>Disabled service account: {account}\<close> is printed if the returned account's
  \<open>disabled\<close> flag is set, nothing is printed if it is not, and the function returns.
\<close>

theorem disable_service_account_rpcs:
  "(disable_rpc client (''projects/'' @ project_id @ ''/serviceAccounts/'' @ account) st = Inl e
      \<longrightarrow> disable_service_account client st project_id account
          = \<lparr>rpcs = [DisableServiceAccountRequest
                       (''projects/'' @ project_id @ ''/serviceAccounts/'' @ account)],
             printed = [], raised_exc = Some e\<rparr>)
   \<and> (disable_rpc client (''projects/'' @ project_id @ ''/serviceAccounts/'' @ account) st = Inr st'
        \<and> get_rpc client (''projects/'' @ project_id @ ''/serviceAccounts/'' @ account) st' = Inl e
      \<longrightarrow> disable_service_account client st project_id account
          = \<lparr>rpcs = [DisableServiceAccountRequest
                       (''projects/'' @ project_id @ ''/serviceAccounts/'' @ account),
                     GetServiceAccountRequest
                       (''projects/'' @ project_id @ ''/serviceAccounts/'' @ account)],
             printed = [], raised_exc = Some e\<rparr>)
   \<and> (disable_rpc client (''projects/'' @ project_id @ ''/serviceAccounts/'' @ account) st = Inr st'
        \<and> get_rpc client (''projects/'' @ project_id @ ''/serviceAccounts/'' @ account) st' = Inr sa
      \<longrightarrow> disable_service_account client st project_id account
          = \<lparr>rpcs = [DisableServiceAccountRequest
                       (''projects/'' @ project_id @ ''/serviceAccounts/'' @ account),
                     GetServiceAccountRequest
                       (''projects/'' @ project_id @ ''/serviceAccounts/'' @ account)],
             printed = (if disabled sa then [''Disabled service account: '' @ account] else []),
             raised_exc = None\<rparr>)"
  by (simp add: disable_service_account_def Let_def)

theorem disable_service_account_rpcs_witness:
  "disable_service_account ref_iam [] ''p'' ''a''
     = \<lparr>rpcs = [DisableServiceAccountRequest ''projects/p/serviceAccounts/a'',
                GetServiceAccountRequest ''projects/p/serviceAccounts/a''],
        printed = [''Disabled service account: a''], raised_exc = None\<rparr>
   \<and> disable_service_account
         \<lparr>disable_rpc = (\<lambda>n st. Inr st),
          get_rpc = (\<lambda>n st. Inr \<lparr>sa_name = n, disabled = (n \<in> set st)\<rparr>)\<rparr> [] ''p'' ''a''
     = \<lparr>rpcs = [DisableServiceAccountRequest ''projects/p/serviceAccounts/a'',
                GetServiceAccountRequest ''projects/p/serviceAccounts/a''],
        printed = [], raised_exc = None\<rparr>
   \<and> disable_service_account
         \<lparr>disable_rpc = (\<lambda>n st. Inl (VendorError ''NotFound'')),
          get_rpc = (\<lambda>n st. Inr \<lparr>sa_name = n, disabled = (n \<in> set st)\<rparr>)\<rparr> [] ''p'' ''a''
     = \<lparr>rpcs = [DisableServiceAccountRequest ''projects/p/serviceAccounts/a''],
        printed = [], raised_exc = Some (VendorError ''NotFound'')\<rparr>
   \<and> disable_service_account
         \<lparr>disable_rpc = (\<lambda>n st. Inr (n # st)),
          get_rpc = (\<lambda>n st. Inl (VendorError ''PermissionDenied''))\<rparr> [] ''p'' ''a''
     = \<lparr>rpcs = [DisableServiceAccountRequest ''projects/p/serviceAccounts/a'',
                GetServiceAccountRequest ''projects/p/serviceAccounts/a''],
        printed = [], raised_exc = Some (VendorError ''PermissionDenied'')\<rparr>"
  using disable_service_account_rpcs[where client = ref_iam and st = "[]"
      and project_id = "''p''" and account = "''a''"
      and st' = "[''projects/p/serviceAccounts/a'']"
      and sa = "\<lparr>sa_name = ''projects/p/serviceAccounts/a'', disabled = True\<rparr>"]
    disable_service_account_rpcs[where
      client = "\<lparr>disable_rpc = (\<lambda>n st. Inr st),
          get_rpc = (\<lambda>n st. Inr \<lparr>sa_name = n, disabled = (n \<in> set st)\<rparr>)\<rparr>"
      and st = "[]" and project_id = "''p''" and account = "''a''" and st' = "[]"
      and sa = "\<lparr>sa_name = ''projects/p/serviceAccounts/a'', disabled = False\<rparr>"]
    disable_service_account_rpcs[where
      client = "\<lparr>disable_rpc = (\<lambda>n st. Inl (VendorError ''NotFound'')),
          get_rpc = (\<lambda>n st. Inr \<lparr>sa_name = n, disabled = (n \<in> set st)\<rparr>)\<rparr>"
      and st = "[]" and project_id = "''p''" and account = "''a''"
      and e = "VendorError ''NotFound''"]
    disable_service_account_rpcs[where
      client = "\<lparr>disable_rpc = (\<lambda>n st. Inr (n # st)),
          get_rpc = (\<lambda>n st. Inl (VendorError ''PermissionDenied''))\<rparr>"
      and st = "[]" and project_id = "''p''" and account = "''a''"
      and st' = "[''projects/p/serviceAccounts/a'']"
      and e = "VendorError ''PermissionDenied''"]
  by (simp add: ref_iam_def)

text \<open>
  The claim as worded fails: for project \<open>p\<close> and account \<open>a\<close>, on a service that
  accepts both calls, the function performs two RPCs, not one.
\<close>

theorem disable_service_account_two_rpcs_counterexample:
  "length (rpcs (disable_service_account ref_iam [] ''p'' ''a'')) = 2
   \<and> printed (disable_service_account ref_iam [] ''p'' ''a'')
       = [''Disabled service account: a'']"
  by (simp add: disable_service_account_def ref_iam_def Let_def)


section \<open>The request built by restrict_api_key_server\<close>

text \<open>
  Claim C7. For every \<open>project_id\<close> and \<open>key_id\<close>, the one request handed to
  \<open>update_key\<close> has exactly these fields assigned: \<open>key.name\<close>,
  \<open>key.restrictions.server_key_restrictions.allowed_ips\<close> with the two literal ranges,
  and \<open>update_mask\<close>; no other field of the request, of the key or of the restrictions
  is assigned.
\<close>

theorem restrict_api_key_server_request:
  "sent (restrict_api_key_server update_key project_id key_id) =
     [[(''key'', FMsg
          [(''name'', FStr (''projects/'' @ project_id @ ''/locations/global/keys/'' @ key_id)),
           (''restrictions'', FMsg
              [(''server_key_restrictions'', FMsg
                  [(''allowed_ips'', FStrList [''198.51.100.0/24'', ''2000:db8::/64''])])])]),
       (''update_mask'', FStr ''restrictions'')]]"
  by (simp add: restrict_api_key_server_def Let_def split: sum.splits)


section \<open>The main program of trainer.py never reaches run\<close>

lemma parser_dests:
  "map (\<lambda>d. dest_of (option_string d)) (parser_arguments aip_model_dir)
     = [''trian_files'', ''eval_files'', ''model_dir'', ''tensorboard_dir'']"
  by (simp add: parser_arguments_def dest_of_def)

text \<open>
  Claim C4 does not hold of the code. Whenever the namespace that \<open>parse_args\<close> returns
  has exactly the attributes of the declared arguments (\<open>trian_files\<close>, \<open>eval_files\<close>,
  \<open>model_dir\<close>, \<open>tensorboard_dir\<close>), the main block makes no call of \<open>run\<close>: for every
  command line that the parser accepts, reading \<open>args.train_files\<close> raises
  \<open>AttributeError\<close>.
\<close>

theorem main_block_never_calls_run:
  assumes attrs: "\<forall>args. parse_args (parser_arguments aip_model_dir) argv = Inr args
      \<longrightarrow> fst ` set args
          = set (map (\<lambda>d. dest_of (option_string d)) (parser_arguments aip_model_dir))"
  shows "(\<forall>r. main_block parse_args aip_model_dir argv \<noteq> Inr r)
    \<and> (\<forall>args. parse_args (parser_arguments aip_model_dir) argv = Inr args
          \<longrightarrow> main_block parse_args aip_model_dir argv = Inl (AttributeError ''train_files''))"
proof -
  have attr: "main_block parse_args aip_model_dir argv = Inl (AttributeError ''train_files'')"
    if p: "parse_args (parser_arguments aip_model_dir) argv = Inr args" for args
  proof -
    from attrs p have "fst ` set args
        = set [''trian_files'', ''eval_files'', ''model_dir'', ''tensorboard_dir'']"
      by (simp only: parser_dests)
    then have "''train_files'' \<notin> fst ` set args" by simp
    then have "map_of args ''train_files'' = None" by (simp add: map_of_eq_None_iff)
    with p show ?thesis by (simp add: main_block_def getattr_def)
  qed
  have "main_block parse_args aip_model_dir argv \<noteq> Inr r" for r
  proof (cases "parse_args (parser_arguments aip_model_dir) argv")
    case (Inl e)
    then show ?thesis by (simp add: main_block_def)
  next
    case (Inr args)
    from attr[OF this] show ?thesis by simp
  qed
  with attr show ?thesis by blast
qed

theorem main_block_never_calls_run_witness:
  "ref_parse_args (parser_arguments None) [''--trian-files'', ''train*'', ''--eval-files'', ''eval*'']
     = Inr [(''trian_files'', Some ''train*''), (''eval_files'', Some ''eval*''),
            (''model_dir'', Some ''model''), (''tensorboard_dir'', Some ''tensorboard'')]
   \<and> main_block ref_parse_args None [''--trian-files'', ''train*'', ''--eval-files'', ''eval*'']
     = Inl (AttributeError ''train_files'')"
proof -
  have p: "ref_parse_args (parser_arguments None)
        [''--trian-files'', ''train*'', ''--eval-files'', ''eval*'']
     = Inr [(''trian_files'', Some ''train*''), (''eval_files'', Some ''eval*''),
            (''model_dir'', Some ''model''), (''tensorboard_dir'', Some ''tensorboard'')]"
    by code_simp
  have "main_block ref_parse_args None [''--trian-files'', ''train*'', ''--eval-files'', ''eval*'']
     = Inl (AttributeError ''train_files'')"
    using main_block_never_calls_run[where parse_args = ref_parse_args
        and aip_model_dir = None
        and argv = "[''--trian-files'', ''train*'', ''--eval-files'', ''eval*'']"]
    by (simp add: p parser_dests)
  with p show ?thesis by simp
qed

end
